theory Spec2Isabelle
  imports Complex_Main
begin

section \<open>JavaScript numbers\<close>

text \<open>
  A JavaScript number is an IEEE 754 double: a finite value (a rational, here), or one of
  \<^verbatim>\<open>NaN\<close>, \<^verbatim>\<open>Infinity\<close> and \<^verbatim>\<open>-Infinity\<close>. The two zeros are one value: no route
  divides by a number or prints the sign of a zero.
\<close>

datatype js_number = Finite rat | NaN | PosInfinity | NegInfinity

text \<open>
  Rounding to the nearest double, ties to the even significand. The magnitude is written
  as \<open>m * 2 ^ e\<close> with \<open>2 ^ 52 \<le> m < 2 ^ 53\<close>, or with \<open>e = - 1074\<close> and a smaller \<open>m\<close> for a
  subnormal value; \<open>m\<close> is rounded to an integer; a result of \<open>2 ^ 1024\<close> or more is
  infinite.
\<close>

function scale_down :: "rat \<Rightarrow> int \<Rightarrow> rat \<times> int" where
  "scale_down m e = (if 2 ^ 53 \<le> m then scale_down (m / 2) (e + 1) else (m, e))"
  by pat_completeness auto
termination
proof (relation "measure (\<lambda>(m, e). nat \<lfloor>m\<rfloor>)")
  show "wf (measure (\<lambda>(m, e). nat \<lfloor>m\<rfloor>))"
    by simp
next
  fix m :: rat and e :: int
  assume big: "2 ^ 53 \<le> m"
  then have "m / 2 + 1 \<le> m"
    by simp
  then have "\<lfloor>m / 2 + 1\<rfloor> \<le> \<lfloor>m\<rfloor>"
    by (rule floor_mono)
  then have less: "\<lfloor>m / 2\<rfloor> < \<lfloor>m\<rfloor>"
    by simp
  have "1 \<le> m"
    using big by simp
  with less show "((m / 2, e + 1), (m, e)) \<in> measure (\<lambda>(m, e). nat \<lfloor>m\<rfloor>)"
    by simp
qed

function scale_up :: "rat \<Rightarrow> int \<Rightarrow> rat \<times> int" where
  "scale_up m e = (if m < 2 ^ 52 \<and> - 1074 < e then scale_up (2 * m) (e - 1) else (m, e))"
  by pat_completeness auto
termination
  by (relation "measure (\<lambda>(m, e). nat (e + 1074))") auto

declare scale_down.simps [simp del]

declare scale_up.simps [simp del]

definition round_half_even :: "rat \<Rightarrow> int" where
  "round_half_even m =
    (let q = \<lfloor>m\<rfloor>; f = m - of_int q
     in if f < 1 / 2 then q else if 1 / 2 < f then q + 1 else if even q then q else q + 1)"

definition round_double :: "rat \<Rightarrow> js_number" where
  "round_double x =
    (if x = 0 then Finite 0
     else
       let (m0, e0) = scale_down \<bar>x\<bar> 0;
           (m, e) = scale_up m0 e0;
           v = of_int (round_half_even m) * 2 powi e
       in if 2 ^ 1024 \<le> v then (if 0 < x then PosInfinity else NegInfinity)
          else Finite (if 0 < x then v else - v))"

text \<open>\<^verbatim>\<open>x + y\<close> and \<^verbatim>\<open>x * y\<close> on numbers: the exact result, rounded.\<close>

fun js_add :: "js_number \<Rightarrow> js_number \<Rightarrow> js_number" where
  "js_add (Finite a) (Finite b) = round_double (a + b)"
| "js_add NaN y = NaN"
| "js_add x NaN = NaN"
| "js_add PosInfinity NegInfinity = NaN"
| "js_add NegInfinity PosInfinity = NaN"
| "js_add PosInfinity y = PosInfinity"
| "js_add x PosInfinity = PosInfinity"
| "js_add NegInfinity y = NegInfinity"
| "js_add x NegInfinity = NegInfinity"

fun js_negative :: "js_number \<Rightarrow> bool" where
  "js_negative (Finite a) = (a < 0)"
| "js_negative NegInfinity = True"
| "js_negative x = False"

fun js_mul :: "js_number \<Rightarrow> js_number \<Rightarrow> js_number" where
  "js_mul (Finite a) (Finite b) = round_double (a * b)"
| "js_mul NaN y = NaN"
| "js_mul x NaN = NaN"
| "js_mul x y =
    (if x = Finite 0 \<or> y = Finite 0 then NaN
     else if js_negative x = js_negative y then PosInfinity
     else NegInfinity)"

text \<open>\<^verbatim>\<open>x < y\<close> and \<^verbatim>\<open>x >= y\<close> on numbers: both are false when either side is \<^verbatim>\<open>NaN\<close>.\<close>

fun js_less :: "js_number \<Rightarrow> js_number \<Rightarrow> bool" where
  "js_less (Finite a) (Finite b) = (a < b)"
| "js_less NaN y = False"
| "js_less x NaN = False"
| "js_less PosInfinity y = False"
| "js_less x PosInfinity = True"
| "js_less x NegInfinity = False"
| "js_less NegInfinity y = True"

definition js_ge :: "js_number \<Rightarrow> js_number \<Rightarrow> bool" where
  "js_ge x y = (x \<noteq> NaN \<and> y \<noteq> NaN \<and> \<not> js_less x y)"

section \<open>The users table\<close>

text \<open>
  The routes of \<^verbatim>\<open>server.js\<close> keep all their state in one MySQL table, \<^verbatim>\<open>users\<close>,
  and address a row by its email (registration refuses a second row with the same email).
  The table is a map from the email to the row. A row holds the columns the progress and
  streak routes read or write. The schema is not part of the sources; every numeric column
  is read through \<^verbatim>\<open>|| 0\<close>, so each is nullable here (\<open>None\<close> is SQL NULL). A calendar
  date (a DATE value: what \<^verbatim>\<open>CURDATE()\<close> and a \<^verbatim>\<open>'YYYY-MM-DD'\<close> parameter store) is the
  number of days since 1970-01-01. The progress columns are addressed by their column name,
  and the table has a column for every name in \<^verbatim>\<open>LANG_COLUMN_MAP\<close>. The experience is the
  JavaScript number the route last wrote (the table keeps the number it is given). The
  streak and the progress counters are integers, which a request changes by one, so they
  stay in the range in which JavaScript holds every integer exactly. The database answers
  every well-formed statement; it refuses a statement whose column position does not
  hold a column name.
\<close>

type_synonym sql_date = int

record user_row =
  xp :: "js_number option"
  level :: string
  streak :: "int option"
  last_active :: "sql_date option"
  progress :: "string \<Rightarrow> int option"

type_synonym users = "string \<Rightarrow> user_row option"

text \<open>\<^verbatim>\<open>SELECT ... FROM users WHERE email = ?\<close>: the list of matching rows.\<close>

definition select_user :: "users \<Rightarrow> string \<Rightarrow> user_row list" where
  "select_user db e = (case db e of None \<Rightarrow> [] | Some r \<Rightarrow> [r])"

text \<open>\<^verbatim>\<open>UPDATE users SET ... WHERE email = ?\<close>: rewrites the matching row, if there is one.\<close>

definition update_user :: "users \<Rightarrow> string \<Rightarrow> (user_row \<Rightarrow> user_row) \<Rightarrow> users" where
  "update_user db e f = (case db e of None \<Rightarrow> db | Some r \<Rightarrow> db(e \<mapsto> f r))"

section \<open>JavaScript values\<close>

text \<open>\<^verbatim>\<open>v || 0\<close> on a nullable number: NULL and 0 both give 0.\<close>

definition or0 :: "int option \<Rightarrow> int" where
  "or0 v = (case v of None \<Rightarrow> 0 | Some n \<Rightarrow> n)"

text \<open>\<^verbatim>\<open>v || 0\<close> on a nullable JavaScript number: NULL, 0 and \<^verbatim>\<open>NaN\<close> are falsy.\<close>

definition num_or0 :: "js_number option \<Rightarrow> js_number" where
  "num_or0 v = (case v of None \<Rightarrow> Finite 0 | Some NaN \<Rightarrow> Finite 0 | Some x \<Rightarrow> x)"

text \<open>\<^verbatim>\<open>!s\<close> on an optional string: a missing field and the empty string are falsy.\<close>

definition falsy :: "string option \<Rightarrow> bool" where
  "falsy s = (case s of None \<Rightarrow> True | Some v \<Rightarrow> v = [])"

section \<open>The language table\<close>

definition LANG_COLUMN_MAP :: "(string \<times> string) list" where
  "LANG_COLUMN_MAP =
    [(''Spanish'', ''progress_spanish''),
     (''French'', ''progress_french''),
     (''Hindi'', ''progress_hindi''),
     (''Kannada'', ''progress_kannada''),
     (''Tamil'', ''progress_tamil''),
     (''Telugu'', ''progress_telugu''),
     (''Marathi'', ''progress_marathi''),
     (''Malayalam'', ''progress_malayalam''),
     (''Bhojpuri'', ''progress_bhojpuri''),
     (''Rajasthani'', ''progress_rajasthani''),
     (''Punjabi'', ''progress_punjabi''),
     (''Kashmiri'', ''progress_kashmiri''),
     (''Urdu'', ''progress_urdu''),
     (''Korean'', ''progress_korean'')]"

text \<open>
  \<^verbatim>\<open>LANG_COLUMN_MAP\<close> is an object literal, so \<^verbatim>\<open>LANG_COLUMN_MAP[lang]\<close> also finds the
  properties every object inherits from \<^verbatim>\<open>Object.prototype\<close>. Their values are functions
  (or, for \<^verbatim>\<open>__proto__\<close>, an object): truthy, and not the name of a column.
\<close>

definition Object_prototype_keys :: "string list" where
  "Object_prototype_keys =
    [''constructor'', ''__proto__'', ''hasOwnProperty'', ''isPrototypeOf'',
     ''propertyIsEnumerable'', ''toLocaleString'', ''toString'', ''valueOf'',
     ''__defineGetter__'', ''__defineSetter__'', ''__lookupGetter__'', ''__lookupSetter__'']"

datatype js_column = Column string | Inherited

text \<open>\<^verbatim>\<open>LANG_COLUMN_MAP[lang] || null\<close>; \<open>None\<close> is \<^verbatim>\<open>null\<close>.\<close>

definition getProgressColumn :: "string \<Rightarrow> js_column option" where
  "getProgressColumn lang =
    (case map_of LANG_COLUMN_MAP lang of
       Some c \<Rightarrow> Some (Column c)
     | None \<Rightarrow> if lang \<in> set Object_prototype_keys then Some Inherited else None)"

section \<open>Dates\<close>

text \<open>
  A JavaScript \<^verbatim>\<open>Date\<close> is its time value, the milliseconds since the epoch. The clock of
  a request is the instant \<open>now\<close> and the offset \<open>tz\<close> of the server's local time from UTC,
  in milliseconds (a fixed offset: no daylight saving change between the dates compared).
  Time values are integers: for the dates a DATE column holds (years 1000 to 9999) the
  time values, their differences and the floor of a difference divided by one day are
  exact in JavaScript numbers.
\<close>

record env =
  now :: int
  tz :: int

definition msPerDay :: int where
  "msPerDay = 1000 * 60 * 60 * 24"

text \<open>
  \<^verbatim>\<open>d.toDateString()\<close> prints the local calendar date of \<open>d\<close>; two such strings are equal
  exactly when the local day numbers are, so the day number stands for the string.
\<close>

definition toDateString :: "int \<Rightarrow> int \<Rightarrow> int" where
  "toDateString off t = (t + off) div msPerDay"

text \<open>\<^verbatim>\<open>d.toISOString().split('T')[0]\<close>: the UTC calendar date of \<open>d\<close>.\<close>

definition toISODate :: "int \<Rightarrow> sql_date" where
  "toISODate t = t div msPerDay"

text \<open>\<^verbatim>\<open>new Date('YYYY-MM-DD')\<close>: a date-only string is read as midnight UTC.\<close>

definition parseISODate :: "sql_date \<Rightarrow> int" where
  "parseISODate d = d * msPerDay"

text \<open>
  The database driver hands a DATE value to the route as a \<^verbatim>\<open>Date\<close> at local midnight
  (and \<^verbatim>\<open>new Date(thatDate)\<close> is the same instant).
\<close>

definition fromSqlDate :: "int \<Rightarrow> sql_date \<Rightarrow> int" where
  "fromSqlDate off d = d * msPerDay - off"

text \<open>\<^verbatim>\<open>yesterday.setDate(today.getDate() - 1)\<close>: the same local time one day earlier.\<close>

definition previousDay :: "int \<Rightarrow> int" where
  "previousDay t = t - msPerDay"

text \<open>
  \<^verbatim>\<open>CURDATE()\<close>: the current date of the database, which shares the clock and the time
  zone of the server.
\<close>

definition CURDATE :: "env \<Rightarrow> sql_date" where
  "CURDATE en = toDateString (tz en) (now en)"

section \<open>Requests and responses\<close>

text \<open>
  A request body is a JSON object; a field that is not sent is \<open>None\<close> (\<^verbatim>\<open>undefined\<close>).
  The routes use \<^verbatim>\<open>score\<close> and \<^verbatim>\<open>gainedXP\<close> in two ways only: they test whether the field
  is \<^verbatim>\<open>undefined\<close>, and they convert it with \<^verbatim>\<open>Number\<close>. So a field that is sent is held as
  the number \<^verbatim>\<open>Number\<close> gives for it: 0 for \<^verbatim>\<open>null\<close>, 5 for \<^verbatim>\<open>5\<close> and for \<^verbatim>\<open>"5"\<close>, 5/2
  for \<^verbatim>\<open>2.5\<close>, \<^verbatim>\<open>NaN\<close> for \<^verbatim>\<open>"abc"\<close>. A response is the HTTP status and the JSON body;
  of a successful body the data fields are kept (its constant \<^verbatim>\<open>message\<close> is left out).
\<close>

record request =
  email :: "string option"
  score :: "js_number option"
  lang :: "string option"
  gainedXP :: "js_number option"

datatype body =
    Message string
  | StreakBody int
  | ProgressBody "js_number option" string int int
  | SubmitBody js_number string int
  | LessonBody js_number string int

type_synonym response = "nat \<times> body"

definition NotFound :: response where
  "NotFound = (404, Message ''User not found'')"

definition UnsupportedLanguage :: response where
  "UnsupportedLanguage = (400, Message ''Unsupported language'')"

section \<open>Level calculation\<close>

text \<open>The level calculation of \<^verbatim>\<open>POST /api/submit\<close>.\<close>

definition submit_level :: "js_number \<Rightarrow> string" where
  "submit_level currentXP =
    (if js_ge currentXP (Finite 100) \<and> js_less currentXP (Finite 300) then ''Intermediate''
     else if js_ge currentXP (Finite 300) \<and> js_less currentXP (Finite 600) then ''Advanced''
     else if js_ge currentXP (Finite 600) then ''Expert''
     else ''Beginner'')"

text \<open>The level calculation of \<^verbatim>\<open>POST /api/complete-lesson\<close>.\<close>

definition lesson_level :: "js_number \<Rightarrow> string" where
  "lesson_level newXP =
    (if js_ge newXP (Finite 100) \<and> js_less newXP (Finite 300) then ''Intermediate''
     else if js_ge newXP (Finite 300) \<and> js_less newXP (Finite 600) then ''Advanced''
     else if js_ge newXP (Finite 600) then ''Expert''
     else ''Beginner'')"

text \<open>
  The level function as the specification words it: four bands of experience, for an
  experience that is a (finite) number.
\<close>

definition level_of :: "rat \<Rightarrow> string" where
  "level_of e =
    (if e < 100 then ''Beginner''
     else if e < 300 then ''Intermediate''
     else if e < 600 then ''Advanced''
     else ''Expert'')"

section \<open>The routes\<close>

text \<open>
  Each route takes the table and the request and gives the response and the table it
  leaves. When \<^verbatim>\<open>getProgressColumn\<close> gives an inherited property instead of a column name,
  the template string puts the text of that value (the source text of a function) where
  the statement needs a column; the database refuses the statement, \<^verbatim>\<open>db.execute\<close> throws,
  and the route's \<^verbatim>\<open>catch\<close> answers 500.
\<close>

text \<open>\<^verbatim>\<open>POST /api/update-streak\<close>.\<close>

definition update_streak :: "env \<Rightarrow> users \<Rightarrow> request \<Rightarrow> response \<times> users" where
  "update_streak en db req =
    (case email req of
       None \<Rightarrow> ((400, Message ''Email required''), db)
     | Some e \<Rightarrow>
        if e = [] then ((400, Message ''Email required''), db)
        else (case select_user db e of
           [] \<Rightarrow> ((404, Message ''User not found''), db)
         | r # _ \<Rightarrow>
            let lastActive = last_active r;
                currentStreak = or0 (streak r);
                today = now en;
                yesterday = previousDay today;
                newStreak =
                  (case lastActive of
                     None \<Rightarrow> 1
                   | Some d \<Rightarrow>
                      let last = fromSqlDate (tz en) d in
                      if toDateString (tz en) last = toDateString (tz en) yesterday
                      then currentStreak + 1
                      else if toDateString (tz en) last \<noteq> toDateString (tz en) today
                      then 1
                      else currentStreak)
            in ((200, StreakBody newStreak),
                update_user db e
                  (\<lambda>u. u\<lparr>streak := Some newStreak, last_active := Some (CURDATE en)\<rparr>))))"

text \<open>\<^verbatim>\<open>GET /api/progress/:email/:lang\<close>; both route parameters are always present.\<close>

definition get_progress :: "users \<Rightarrow> string \<Rightarrow> string \<Rightarrow> response \<times> users" where
  "get_progress db e l =
    (case getProgressColumn l of
       None \<Rightarrow> ((400, Message ''Unsupported language''), db)
     | Some Inherited \<Rightarrow> ((500, Message ''Progress fetch failed''), db)
     | Some (Column column) \<Rightarrow>
        (case select_user db e of
           [] \<Rightarrow> ((404, Message ''User not found''), db)
         | r # _ \<Rightarrow>
            let progress_read = or0 (progress r column);
                totalLessons = 10
            in ((200, ProgressBody (xp r) (level r) progress_read totalLessons), db)))"

text \<open>\<^verbatim>\<open>POST /api/submit\<close>.\<close>

definition submit :: "users \<Rightarrow> request \<Rightarrow> response \<times> users" where
  "submit db req =
    (if falsy (email req) \<or> score req = None \<or> falsy (lang req)
     then ((400, Message ''email, score and lang required''), db)
     else
       (case (email req, score req, lang req) of
          (Some e, Some sc, Some l) \<Rightarrow>
            (case getProgressColumn l of
               None \<Rightarrow> ((400, Message ''Unsupported language''), db)
             | Some Inherited \<Rightarrow> ((500, Message ''Error submitting quiz''), db)
             | Some (Column progressCol) \<Rightarrow>
                let xpGain = js_mul sc (Finite 10) in
                (case select_user db e of
                   [] \<Rightarrow> ((404, Message ''User not found''), db)
                 | r # _ \<Rightarrow>
                    let currentXP = js_add (num_or0 (xp r)) xpGain;
                        newProgress = or0 (progress r progressCol) + 1;
                        lvl = submit_level currentXP
                    in ((200, SubmitBody currentXP lvl newProgress),
                        update_user db e
                          (\<lambda>u. u\<lparr>xp := Some currentXP, level := lvl,
                                 progress := (progress u)(progressCol := Some newProgress)\<rparr>))))
        | _ \<Rightarrow> ((400, Message ''email, score and lang required''), db)))"

text \<open>
  \<^verbatim>\<open>POST /api/complete-lesson\<close>. The main fields are written first; the progress column
  is bumped by a second statement, \<^verbatim>\<open>SET col = col + 1\<close> (NULL stays NULL).
\<close>

definition complete_lesson :: "env \<Rightarrow> users \<Rightarrow> request \<Rightarrow> response \<times> users" where
  "complete_lesson en db req =
    (case email req of
       None \<Rightarrow> ((400, Message ''Email required''), db)
     | Some e \<Rightarrow>
        if e = [] then ((400, Message ''Email required''), db)
        else (case select_user db e of
           [] \<Rightarrow> ((404, Message ''User not found''), db)
         | user # _ \<Rightarrow>
            let today = toISODate (now en);
                streak0 = or0 (streak user);
                streak1 =
                  (case last_active user of
                     Some d \<Rightarrow>
                      let lastActive = fromSqlDate (tz en) d;
                          diffDays = (parseISODate today - lastActive) div msPerDay
                      in if diffDays = 1 then streak0 + 1
                         else if diffDays > 1 then 1
                         else streak0
                   | None \<Rightarrow> 1);
                newXP = js_add (num_or0 (xp user))
                          (case gainedXP req of None \<Rightarrow> Finite 20 | Some g \<Rightarrow> g);
                newLevel = lesson_level newXP;
                db1 = update_user db e
                        (\<lambda>u. u\<lparr>xp := Some newXP, level := newLevel,
                               last_active := Some today, streak := Some streak1\<rparr>);
                done = (200, LessonBody newXP newLevel streak1)
            in if falsy (lang req) then (done, db1)
               else (case lang req of
                  None \<Rightarrow> (done, db1)
                | Some l \<Rightarrow>
                   (case getProgressColumn l of
                      None \<Rightarrow> (done, db1)
                    | Some Inherited \<Rightarrow> ((500, Message ''Error completing lesson''), db1)
                    | Some (Column progressCol) \<Rightarrow>
                       (done,
                        update_user db1 e
                          (\<lambda>u. u\<lparr>progress := (progress u)
                                   (progressCol := map_option (\<lambda>v. v + 1) (progress u progressCol))\<rparr>))))))"


section \<open>Sequences of requests\<close>

text \<open>The server handles one request after the other, each at the clock of its arrival.\<close>

datatype call =
    UpdateStreak request
  | CompleteLesson request
  | Submit request
  | GetProgress string string

definition serve :: "env \<Rightarrow> users \<Rightarrow> call \<Rightarrow> response \<times> users" where
  "serve en db c =
    (case c of
       UpdateStreak req \<Rightarrow> update_streak en db req
     | CompleteLesson req \<Rightarrow> complete_lesson en db req
     | Submit req \<Rightarrow> submit db req
     | GetProgress e l \<Rightarrow> get_progress db e l)"

text \<open>The tables a sequence of requests leaves, one after each request.\<close>

fun run :: "users \<Rightarrow> (env \<times> call) list \<Rightarrow> users list" where
  "run db [] = []"
| "run db ((en, c) # rest) = snd (serve en db c) # run (snd (serve en db c)) rest"

section \<open>Vocabulary of the properties\<close>

text \<open>The stored \<^verbatim>\<open>last_active\<close> of a user; \<open>None\<close> when it is absent (or the user is).\<close>

definition last_active_of :: "users \<Rightarrow> string \<Rightarrow> sql_date option" where
  "last_active_of db e = (case db e of None \<Rightarrow> None | Some r \<Rightarrow> last_active r)"

text \<open>A date moves forward, or is set from absent.\<close>

fun moves_forward :: "sql_date option \<Rightarrow> sql_date option \<Rightarrow> bool" where
  "moves_forward None new = True"
| "moves_forward (Some d) None = False"
| "moves_forward (Some d) (Some d') = (d \<le> d')"

fun never_regresses :: "sql_date option \<Rightarrow> sql_date option list \<Rightarrow> bool" where
  "never_regresses stored [] = True"
| "never_regresses stored (x # xs) = (moves_forward stored x \<and> never_regresses x xs)"

text \<open>
  The reference date of a request: the date its \<^verbatim>\<open>UPDATE\<close> stores in \<^verbatim>\<open>last_active\<close>
  (\<^verbatim>\<open>CURDATE()\<close> in the streak route, \<^verbatim>\<open>today\<close> in the lesson route). The other two
  routes store none.
\<close>

definition written_date :: "env \<Rightarrow> call \<Rightarrow> sql_date option" where
  "written_date en c =
    (case c of
       UpdateStreak req \<Rightarrow> Some (CURDATE en)
     | CompleteLesson req \<Rightarrow> Some (toISODate (now en))
     | Submit req \<Rightarrow> None
     | GetProgress e l \<Rightarrow> None)"

fun reference_dates :: "(env \<times> call) list \<Rightarrow> sql_date list" where
  "reference_dates [] = []"
| "reference_dates ((en, c) # rest) =
    (case written_date en c of
       None \<Rightarrow> reference_dates rest
     | Some w \<Rightarrow> w # reference_dates rest)"

text \<open>
  The parts of \<^verbatim>\<open>POST /api/complete-lesson\<close> by name, for the lemmas below: the default
  parameter \<^verbatim>\<open>gainedXP = 20\<close>, the streak it computes, the row its first \<^verbatim>\<open>UPDATE\<close>
  leaves, the effect of its second \<^verbatim>\<open>UPDATE\<close>, the value of \<^verbatim>\<open>progressCol\<close> (\<open>None\<close>
  also when \<^verbatim>\<open>lang\<close> is falsy) and its success response.
\<close>

definition gained :: "request \<Rightarrow> js_number" where
  "gained req = (case gainedXP req of None \<Rightarrow> Finite 20 | Some g \<Rightarrow> g)"

definition lesson_streak :: "env \<Rightarrow> user_row \<Rightarrow> int" where
  "lesson_streak en r =
    (case last_active r of
       None \<Rightarrow> 1
     | Some d \<Rightarrow>
        if (parseISODate (toISODate (now en)) - fromSqlDate (tz en) d) div msPerDay = 1
        then or0 (streak r) + 1
        else if (parseISODate (toISODate (now en)) - fromSqlDate (tz en) d) div msPerDay > 1
        then 1
        else or0 (streak r))"

definition lesson_row :: "env \<Rightarrow> request \<Rightarrow> user_row \<Rightarrow> user_row" where
  "lesson_row en req r =
    r\<lparr>xp := Some (js_add (num_or0 (xp r)) (gained req)),
      level := lesson_level (js_add (num_or0 (xp r)) (gained req)),
      last_active := Some (toISODate (now en)),
      streak := Some (lesson_streak en r)\<rparr>"

definition bump :: "string \<Rightarrow> user_row \<Rightarrow> user_row" where
  "bump c u = u\<lparr>progress := (progress u)(c := map_option (\<lambda>v. v + 1) (progress u c))\<rparr>"

definition lesson_column :: "request \<Rightarrow> js_column option" where
  "lesson_column req = (case lang req of None \<Rightarrow> None | Some l \<Rightarrow> getProgressColumn l)"

definition lesson_done :: "env \<Rightarrow> request \<Rightarrow> user_row \<Rightarrow> response" where
  "lesson_done en req r =
    (200, LessonBody (js_add (num_or0 (xp r)) (gained req))
            (lesson_level (js_add (num_or0 (xp r)) (gained req))) (lesson_streak en r))"

section \<open>Example data\<close>

text \<open>
  A row as registration leaves it, a user with a three-day streak last active on day 19,
  a clock at 09:00 UTC of a given day on a server five and a half hours east of UTC, and
  a clock at 15:00 UTC of a given day on a server five hours west of UTC.
\<close>

definition fresh_user :: user_row where
  "fresh_user =
    \<lparr>xp = Some (Finite 0), level = ''Beginner'', streak = Some 0, last_active = None,
     progress = (\<lambda>c. Some 0)\<rparr>"

definition active_user :: user_row where
  "active_user =
    \<lparr>xp = Some (Finite 90), level = ''Beginner'', streak = Some 3, last_active = Some 19,
     progress = (\<lambda>c. Some 0)\<rparr>"

definition one_user :: users where
  "one_user = Map.empty(''asha@example.com'' \<mapsto> fresh_user)"

definition two_users :: users where
  "two_users = Map.empty(''asha@example.com'' \<mapsto> fresh_user, ''ravi@example.com'' \<mapsto> active_user)"

definition clock :: "int \<Rightarrow> env" where
  "clock day = \<lparr>now = day * 86400000 + 32400000, tz = 19800000\<rparr>"

definition clock_west :: "int \<Rightarrow> env" where
  "clock_west day = \<lparr>now = day * 86400000 + 54000000, tz = - 18000000\<rparr>"

definition quiz :: "string \<Rightarrow> int \<Rightarrow> string \<Rightarrow> request" where
  "quiz e sc l =
    \<lparr>email = Some e, score = Some (Finite (of_int sc)), lang = Some l, gainedXP = None\<rparr>"

definition ping :: "string \<Rightarrow> request" where
  "ping e = \<lparr>email = Some e, score = None, lang = None, gainedXP = None\<rparr>"

definition lesson :: "string \<Rightarrow> string \<Rightarrow> request" where
  "lesson e l = \<lparr>email = Some e, score = None, lang = Some l, gainedXP = None\<rparr>"

section \<open>Arithmetic on integers within the exact range\<close>

lemma floor_rat_numeral_div:
  "\<lfloor>(numeral a :: rat) / numeral b\<rfloor> = numeral a div numeral b"
  by (metis floor_divide_of_int_eq of_int_numeral)

lemma scale_up_value: "scale_up m e = (m', e') \<Longrightarrow> m' * 2 powi e' = m * 2 powi e"
proof (induction m e rule: scale_up.induct)
  case (1 m e)
  show ?case
  proof (cases "m < 2 ^ 52 \<and> - 1074 < e")
    case True
    then have "scale_up (2 * m) (e - 1) = (m', e')"
      using "1.prems" by (simp add: scale_up.simps [of m e])
    then have "m' * 2 powi e' = (2 * m) * 2 powi (e - 1)"
      using "1.IH" True by simp
    also have "\<dots> = m * 2 powi e"
      by (simp add: power_int_diff)
    finally show ?thesis .
  next
    case False
    then show ?thesis
      using "1.prems" by (auto simp add: scale_up.simps [of m e] split: if_splits)
  qed
qed

lemma scale_up_Ints: "m \<in> \<int> \<Longrightarrow> scale_up m e = (m', e') \<Longrightarrow> m' \<in> \<int>"
proof (induction m e rule: scale_up.induct)
  case (1 m e)
  show ?case
  proof (cases "m < 2 ^ 52 \<and> - 1074 < e")
    case True
    then have "scale_up (2 * m) (e - 1) = (m', e')"
      using "1.prems" by (simp add: scale_up.simps [of m e])
    moreover have "2 * m \<in> \<int>"
      using "1.prems"(1) by simp
    ultimately show ?thesis
      using "1.IH" True by simp
  next
    case False
    then show ?thesis
      using "1.prems" by (auto simp add: scale_up.simps [of m e] split: if_splits)
  qed
qed

lemma round_half_even_Ints: "m \<in> \<int> \<Longrightarrow> of_int (round_half_even m) = m"
  by (auto simp add: round_half_even_def Let_def elim!: Ints_cases)

text \<open>Every integer of magnitude at most \<open>2 ^ 53\<close> is a double: rounding leaves it alone.\<close>

lemma round_double_int:
  assumes "\<bar>n\<bar> \<le> 2 ^ 53"
  shows "round_double (of_int n) = Finite (of_int n)"
proof (cases "n = 0")
  case True
  then show ?thesis
    by (simp add: round_double_def)
next
  case False
  define a :: rat where "a = \<bar>of_int n\<bar>"
  have a_int: "a \<in> \<int>"
    by (simp add: a_def)
  have a_le: "a \<le> 2 ^ 53"
  proof -
    have "a = of_int \<bar>n\<bar>"
      by (simp add: a_def)
    also have "\<dots> \<le> of_int (2 ^ 53)"
      using assms by (simp only: of_int_le_iff)
    finally show ?thesis
      by simp
  qed
  obtain m0 e0 where sd: "scale_down a 0 = (m0, e0)"
    by (cases "scale_down a 0")
  have sd_props: "m0 \<in> \<int> \<and> m0 * 2 powi e0 = a"
  proof (cases "a = 2 ^ 53")
    case True
    then have "scale_down a 0 = (2 ^ 52, 1)"
      by (simp add: scale_down.simps)
    then show ?thesis
      using sd True by auto
  next
    case False
    then have "a < 2 ^ 53"
      using a_le by simp
    then have "scale_down a 0 = (a, 0)"
      by (simp add: scale_down.simps [of a 0])
    then show ?thesis
      using sd a_int by simp
  qed
  obtain m e where su: "scale_up m0 e0 = (m, e)"
    by (cases "scale_up m0 e0")
  have m_int: "m \<in> \<int>"
    using scale_up_Ints [of m0 e0 m e] su sd_props by simp
  have val: "m * 2 powi e = a"
    using scale_up_value [of m0 e0 m e] su sd_props by simp
  have v: "of_int (round_half_even m) * 2 powi e = a"
    using round_half_even_Ints [OF m_int] val by simp
  have small: "\<not> (2 :: rat) ^ 1024 \<le> a"
  proof -
    have "(2 :: rat) ^ 53 < 2 ^ 1024"
      by simp
    then show ?thesis
      using a_le by linarith
  qed
  have "round_double (of_int n) = Finite (if 0 < (of_int n :: rat) then a else - a)"
    using False sd su v small by (simp add: round_double_def a_def [symmetric])
  then show ?thesis
    by (auto simp add: a_def)
qed

lemma round_double_numeral:
  "(numeral k :: int) \<le> 2 ^ 53 \<Longrightarrow> round_double (numeral k) = Finite (numeral k)"
  using round_double_int [of "numeral k"] by simp

lemma round_double_0: "round_double 0 = Finite 0"
  by (simp add: round_double_def)

lemma js_add_int:
  "\<bar>a + b\<bar> \<le> 2 ^ 53 \<Longrightarrow>
   js_add (Finite (of_int a)) (Finite (of_int b)) = Finite (of_int (a + b))"
  using round_double_int [of "a + b"] by simp

lemma js_mul_int:
  "\<bar>a * b\<bar> \<le> 2 ^ 53 \<Longrightarrow>
   js_mul (Finite (of_int a)) (Finite (of_int b)) = Finite (of_int (a * b))"
  using round_double_int [of "a * b"] by simp

text \<open>Above \<open>2 ^ 53\<close> an odd integer is not a double.\<close>

lemma round_double_above: "round_double 9007199254740993 = Finite 9007199254740992"
proof -
  have sd: "scale_down 9007199254740993 0 = (9007199254740993 / 2, 1)"
    by (simp add: scale_down.simps)
  have su: "scale_up (9007199254740993 / 2) 1 = (9007199254740993 / 2, 1)"
    by (simp add: scale_up.simps)
  have r: "round_half_even (9007199254740993 / 2) = 4503599627370496"
    by (simp add: round_half_even_def Let_def floor_rat_numeral_div)
  show ?thesis
    by (simp add: round_double_def sd su r)
qed

section \<open>Dates and the language table\<close>

lemma msPerDay_pos: "0 < msPerDay"
  by (simp add: msPerDay_def)

lemma toDateString_fromSqlDate: "toDateString off (fromSqlDate off d) = d"
  using msPerDay_pos by (simp add: toDateString_def fromSqlDate_def)

lemma toDateString_previousDay: "toDateString off (previousDay t) = toDateString off t - 1"
proof -
  have "t - msPerDay + off = (t + off) + (- 1) * msPerDay"
    by simp
  then have "(t - msPerDay + off) div msPerDay = (t + off) div msPerDay + (- 1)"
    using msPerDay_pos div_mult_self1 [of msPerDay "t + off" "- 1"]
    by (simp only: div_mult_self2)
  then show ?thesis
    by (simp add: toDateString_def previousDay_def)
qed

lemma getProgressColumn_empty: "getProgressColumn [] = None"
  by (simp add: getProgressColumn_def LANG_COLUMN_MAP_def Object_prototype_keys_def)

lemma getProgressColumn_own:
  "map_of LANG_COLUMN_MAP l = Some c \<Longrightarrow> getProgressColumn l = Some (Column c)"
  by (simp add: getProgressColumn_def)

lemma level_calc_eq: "submit_level (Finite q) = level_of q" "lesson_level y = submit_level y"
  by (auto simp add: submit_level_def lesson_level_def level_of_def js_ge_def)

lemma level_of_bands:
  "level_of q = ''Beginner'' \<longleftrightarrow> q < 100"
  "level_of q = ''Intermediate'' \<longleftrightarrow> 100 \<le> q \<and> q < 300"
  "level_of q = ''Advanced'' \<longleftrightarrow> 300 \<le> q \<and> q < 600"
  "level_of q = ''Expert'' \<longleftrightarrow> 600 \<le> q"
  by (simp_all add: level_of_def)

section \<open>What each route does\<close>

subsection \<open>Quiz submission\<close>

lemma submit_existing:
  assumes "db e = Some r" and "e \<noteq> []" and "getProgressColumn l = Some (Column c)"
    and "email req = Some e" and "score req = Some sc" and "lang req = Some l"
  shows "submit db req =
    ((200, SubmitBody (js_add (num_or0 (xp r)) (js_mul sc (Finite 10)))
            (submit_level (js_add (num_or0 (xp r)) (js_mul sc (Finite 10))))
            (or0 (progress r c) + 1)),
     db(e \<mapsto> r\<lparr>xp := Some (js_add (num_or0 (xp r)) (js_mul sc (Finite 10))),
                 level := submit_level (js_add (num_or0 (xp r)) (js_mul sc (Finite 10))),
                 progress := (progress r)(c := Some (or0 (progress r c) + 1))\<rparr>))"
proof -
  have "l \<noteq> []"
    using assms(3) getProgressColumn_empty by auto
  then show ?thesis
    using assms
    by (simp add: submit_def falsy_def select_user_def update_user_def Let_def)
qed

lemma submit_ok_cases:
  assumes "submit db req = ((200, b), db')"
  obtains e sc l c r where "email req = Some e" and "score req = Some sc"
    and "lang req = Some l" and "e \<noteq> []" and "getProgressColumn l = Some (Column c)"
    and "db e = Some r"
  using assms
  by (auto simp add: submit_def falsy_def select_user_def Let_def
      split: if_splits option.splits js_column.splits list.splits)

lemma submit_ghost:
  assumes "db e = None" and "email req = Some e"
  shows "snd (submit db req) = db" and "fst (fst (submit db req)) \<noteq> 200"
    and "e \<noteq> [] \<Longrightarrow> score req = Some sc \<Longrightarrow> lang req = Some l \<Longrightarrow>
         getProgressColumn l = Some (Column c) \<Longrightarrow> submit db req = (NotFound, db)"
  using assms getProgressColumn_empty
  by (auto simp add: submit_def falsy_def select_user_def Let_def NotFound_def
      split: option.splits js_column.splits)

lemma submit_unsupported:
  assumes "email req = Some e" and "e \<noteq> []" and "score req = Some sc"
    and "lang req = Some l" and "l \<noteq> []" and "getProgressColumn l = None"
  shows "submit db req = (UnsupportedLanguage, db)"
  using assms by (simp add: submit_def falsy_def UnsupportedLanguage_def)

subsection \<open>Progress query\<close>

lemma get_progress_unchanged: "snd (get_progress db e l) = db"
  by (simp add: get_progress_def Let_def split: option.splits list.splits js_column.splits)

lemma get_progress_existing:
  assumes "db e = Some r" and "getProgressColumn l = Some (Column c)"
  shows "get_progress db e l =
    ((200, ProgressBody (xp r) (level r) (or0 (progress r c)) 10), db)"
  using assms by (simp add: get_progress_def select_user_def Let_def)

lemma get_progress_ghost:
  assumes "db e = None"
  shows "fst (fst (get_progress db e l)) \<noteq> 200"
    and "getProgressColumn l = Some (Column c) \<Longrightarrow> get_progress db e l = (NotFound, db)"
  using assms
  by (auto simp add: get_progress_def select_user_def NotFound_def
      split: option.splits js_column.splits)

lemma get_progress_unsupported:
  assumes "getProgressColumn l = None"
  shows "get_progress db e l = (UnsupportedLanguage, db)"
  using assms by (simp add: get_progress_def UnsupportedLanguage_def)

subsection \<open>Streak update\<close>

lemma update_streak_existing:
  assumes "db e = Some r" and "e \<noteq> []" and "email req = Some e"
  shows "update_streak en db req =
    ((200, StreakBody
        (case last_active r of
           None \<Rightarrow> 1
         | Some d \<Rightarrow> if d = CURDATE en - 1 then or0 (streak r) + 1
                     else if d \<noteq> CURDATE en then 1 else or0 (streak r))),
     db(e \<mapsto> r\<lparr>streak := Some
        (case last_active r of
           None \<Rightarrow> 1
         | Some d \<Rightarrow> if d = CURDATE en - 1 then or0 (streak r) + 1
                     else if d \<noteq> CURDATE en then 1 else or0 (streak r)),
        last_active := Some (CURDATE en)\<rparr>))"
  using assms
  by (simp add: update_streak_def select_user_def update_user_def Let_def CURDATE_def
      toDateString_fromSqlDate toDateString_previousDay split: option.splits)

lemma update_streak_ghost:
  assumes "db e = None" and "email req = Some e"
  shows "update_streak en db req =
    ((if e = [] then (400, Message ''Email required'') else NotFound), db)"
  using assms by (simp add: update_streak_def select_user_def NotFound_def)

lemma update_streak_no_email:
  assumes "email req = None \<or> email req = Some []"
  shows "update_streak en db req = ((400, Message ''Email required''), db)"
  using assms by (auto simp add: update_streak_def)

subsection \<open>Lesson completion\<close>

lemma complete_lesson_existing:
  assumes "db e = Some r" and "e \<noteq> []" and "email req = Some e"
  shows "complete_lesson en db req =
    (case lesson_column req of
       None \<Rightarrow> (lesson_done en req r, db(e \<mapsto> lesson_row en req r))
     | Some Inherited \<Rightarrow>
        ((500, Message ''Error completing lesson''), db(e \<mapsto> lesson_row en req r))
     | Some (Column c) \<Rightarrow> (lesson_done en req r, db(e \<mapsto> bump c (lesson_row en req r))))"
  using assms
  by (auto simp add: complete_lesson_def select_user_def Let_def update_user_def
      lesson_column_def lesson_done_def lesson_row_def lesson_streak_def gained_def bump_def
      falsy_def getProgressColumn_empty split: option.splits js_column.splits)

lemma complete_lesson_ghost:
  assumes "db e = None" and "email req = Some e"
  shows "complete_lesson en db req =
    ((if e = [] then (400, Message ''Email required'') else NotFound), db)"
  using assms by (simp add: complete_lesson_def select_user_def NotFound_def)

lemma complete_lesson_no_email:
  assumes "email req = None \<or> email req = Some []"
  shows "complete_lesson en db req = ((400, Message ''Email required''), db)"
  using assms by (auto simp add: complete_lesson_def)

lemma complete_lesson_ok_cases:
  assumes "complete_lesson en db req = ((200, b), db')"
  obtains e r where "email req = Some e" and "e \<noteq> []" and "db e = Some r"
proof (cases "email req")
  case None
  then show ?thesis
    using assms complete_lesson_no_email [of req en db] by simp
next
  case (Some e)
  show ?thesis
  proof (cases "db e")
    case None
    then show ?thesis
      using assms Some complete_lesson_ghost [of db e req en]
      by (simp add: NotFound_def split: if_splits)
  next
    case (Some r)
    show ?thesis
    proof (cases "e = []")
      case True
      then show ?thesis
        using assms \<open>email req = Some e\<close> complete_lesson_no_email [of req en db] by simp
    next
      case False
      then show ?thesis
        using that \<open>email req = Some e\<close> Some by blast
    qed
  qed
qed

lemma lesson_row_fields:
  "xp (lesson_row en req r) = Some (js_add (num_or0 (xp r)) (gained req))"
  "level (lesson_row en req r) = lesson_level (js_add (num_or0 (xp r)) (gained req))"
  "last_active (lesson_row en req r) = Some (toISODate (now en))"
  "streak (lesson_row en req r) = Some (lesson_streak en r)"
  "progress (lesson_row en req r) = progress r"
  by (simp_all add: lesson_row_def)

lemma bump_fields:
  "xp (bump c u) = xp u" "level (bump c u) = level u"
  "last_active (bump c u) = last_active u" "streak (bump c u) = streak u"
  "progress (bump c u) = (progress u)(c := map_option (\<lambda>v. v + 1) (progress u c))"
  by (simp_all add: bump_def)

lemma complete_lesson_main_fields:
  assumes "db e = Some r" and "e \<noteq> []" and "email req = Some e"
  shows "\<exists>r'. snd (complete_lesson en db req) e = Some r' \<and>
           xp r' = Some (js_add (num_or0 (xp r)) (gained req)) \<and>
           level r' = lesson_level (js_add (num_or0 (xp r)) (gained req)) \<and>
           last_active r' = Some (toISODate (now en)) \<and>
           streak r' = Some (lesson_streak en r)"
  using complete_lesson_existing [of db e r req en] assms
  by (auto simp add: lesson_row_fields bump_fields split: option.splits js_column.splits)

subsection \<open>The stored date across a request\<close>

lemma last_active_of_upd:
  "last_active_of (db(e' \<mapsto> r')) e = (if e = e' then last_active r' else last_active_of db e)"
  by (simp add: last_active_of_def)

lemma update_streak_last_active:
  "last_active_of (snd (update_streak en db req)) e = last_active_of db e \<or>
   last_active_of (snd (update_streak en db req)) e = Some (CURDATE en)"
proof (cases "email req")
  case None
  then show ?thesis by (simp add: update_streak_no_email)
next
  case (Some e')
  show ?thesis
  proof (cases "db e'")
    case None
    then show ?thesis using Some by (simp add: update_streak_ghost)
  next
    case r: (Some r)
    show ?thesis
    proof (cases "e' = []")
      case True
      then show ?thesis using Some by (simp add: update_streak_no_email)
    next
      case False
      then show ?thesis
        using update_streak_existing [of db e' r req en] r Some
        by (simp add: last_active_of_upd)
    qed
  qed
qed

lemma complete_lesson_last_active:
  "last_active_of (snd (complete_lesson en db req)) e = last_active_of db e \<or>
   last_active_of (snd (complete_lesson en db req)) e = Some (toISODate (now en))"
proof (cases "email req")
  case None
  then show ?thesis by (simp add: complete_lesson_no_email)
next
  case (Some e')
  show ?thesis
  proof (cases "db e'")
    case None
    then show ?thesis using Some by (simp add: complete_lesson_ghost)
  next
    case r: (Some r)
    show ?thesis
    proof (cases "e' = []")
      case True
      then show ?thesis using Some by (simp add: complete_lesson_no_email)
    next
      case False
      then show ?thesis
        using complete_lesson_existing [of db e' r req en] r Some
        by (auto simp add: last_active_of_upd lesson_row_fields bump_fields
            split: option.splits js_column.splits)
    qed
  qed
qed

lemma submit_last_active:
  "last_active_of (snd (submit db req)) e = last_active_of db e"
proof (cases "fst (fst (submit db req)) = 200")
  case True
  then obtain b db' where ok: "submit db req = ((200, b), db')"
    by (metis prod.collapse)
  then obtain e' sc l c r where "email req = Some e'" "score req = Some sc"
    "lang req = Some l" "e' \<noteq> []" "getProgressColumn l = Some (Column c)" "db e' = Some r"
    by (rule submit_ok_cases)
  then show ?thesis
    using submit_existing [of db e' r l c req sc]
    by (simp add: last_active_of_upd) (simp add: last_active_of_def)
next
  case False
  then have "snd (submit db req) = db"
    by (auto simp add: submit_def falsy_def select_user_def Let_def
        split: option.splits js_column.splits list.splits)
  then show ?thesis by simp
qed

lemma serve_last_active:
  "last_active_of (snd (serve en db c)) e = last_active_of db e \<or>
   (\<exists>w. written_date en c = Some w \<and> last_active_of (snd (serve en db c)) e = Some w)"
proof (cases c)
  case (UpdateStreak req)
  then show ?thesis
    using update_streak_last_active [of en db req e] by (simp add: serve_def written_date_def)
next
  case (CompleteLesson req)
  then show ?thesis
    using complete_lesson_last_active [of en db req e] by (simp add: serve_def written_date_def)
next
  case (Submit req)
  then show ?thesis by (simp add: serve_def submit_last_active)
next
  case (GetProgress e' l)
  then show ?thesis by (simp add: serve_def get_progress_unchanged)
qed

lemma moves_forward_refl: "moves_forward x x"
  by (cases x) simp_all

section \<open>Level thresholds\<close>

text \<open>
  Claim C1. The level computed from an experience value \<open>q\<close> is Beginner iff \<open>q < 100\<close>,
  Intermediate iff \<open>100 \<le> q < 300\<close>, Advanced iff \<open>300 \<le> q < 600\<close> and Expert iff
  \<open>q \<ge> 600\<close>, for every finite number \<open>q\<close> (so for every integer), in particular at 99,
  100, 299, 300, 599 and 600. The calculation of the lesson route is the same function as
  that of the submit route, and each route stores the level this function gives for the
  new experience value it stores: the old experience plus ten times the score, or plus
  the gained experience (20 when the request names none), in JavaScript arithmetic.
\<close>

theorem level_thresholds:
  "(submit_level (Finite q) = ''Beginner'' \<longleftrightarrow> q < 100) \<and>
   (submit_level (Finite q) = ''Intermediate'' \<longleftrightarrow> 100 \<le> q \<and> q < 300) \<and>
   (submit_level (Finite q) = ''Advanced'' \<longleftrightarrow> 300 \<le> q \<and> q < 600) \<and>
   (submit_level (Finite q) = ''Expert'' \<longleftrightarrow> 600 \<le> q) \<and>
   lesson_level y = submit_level y \<and>
   submit_level (Finite 99) = ''Beginner'' \<and> submit_level (Finite 100) = ''Intermediate'' \<and>
   submit_level (Finite 299) = ''Intermediate'' \<and> submit_level (Finite 300) = ''Advanced'' \<and>
   submit_level (Finite 599) = ''Advanced'' \<and> submit_level (Finite 600) = ''Expert'' \<and>
   (db e = Some r \<and> e \<noteq> [] \<and> email req = Some e \<and> score req = Some sc \<and>
    lang req = Some l \<and> map_of LANG_COLUMN_MAP l = Some c \<longrightarrow>
      (\<exists>r'. snd (submit db req) e = Some r' \<and>
            xp r' = Some (js_add (num_or0 (xp r)) (js_mul sc (Finite 10))) \<and>
            level r' = submit_level (js_add (num_or0 (xp r)) (js_mul sc (Finite 10))))) \<and>
   (db e = Some r \<and> e \<noteq> [] \<and> email lreq = Some e \<longrightarrow>
      (\<exists>r'. snd (complete_lesson en db lreq) e = Some r' \<and>
            xp r' = Some (js_add (num_or0 (xp r))
                      (case gainedXP lreq of None \<Rightarrow> Finite 20 | Some g \<Rightarrow> g)) \<and>
            level r' = lesson_level (js_add (num_or0 (xp r))
                      (case gainedXP lreq of None \<Rightarrow> Finite 20 | Some g \<Rightarrow> g))))"
proof -
  have bands: "(submit_level (Finite q) = ''Beginner'' \<longleftrightarrow> q < 100) \<and>
   (submit_level (Finite q) = ''Intermediate'' \<longleftrightarrow> 100 \<le> q \<and> q < 300) \<and>
   (submit_level (Finite q) = ''Advanced'' \<longleftrightarrow> 300 \<le> q \<and> q < 600) \<and>
   (submit_level (Finite q) = ''Expert'' \<longleftrightarrow> 600 \<le> q)"
    by (simp add: level_calc_eq level_of_bands)
  have same: "lesson_level y = submit_level y"
    by (simp add: level_calc_eq)
  have bounds: "submit_level (Finite 99) = ''Beginner'' \<and>
   submit_level (Finite 100) = ''Intermediate'' \<and>
   submit_level (Finite 299) = ''Intermediate'' \<and> submit_level (Finite 300) = ''Advanced'' \<and>
   submit_level (Finite 599) = ''Advanced'' \<and> submit_level (Finite 600) = ''Expert''"
    by (simp add: level_calc_eq level_of_def)
  have sub: "\<exists>r'. snd (submit db req) e = Some r' \<and>
            xp r' = Some (js_add (num_or0 (xp r)) (js_mul sc (Finite 10))) \<and>
            level r' = submit_level (js_add (num_or0 (xp r)) (js_mul sc (Finite 10)))"
    if "db e = Some r" "e \<noteq> []" "email req = Some e" "score req = Some sc"
      "lang req = Some l" "map_of LANG_COLUMN_MAP l = Some c"
    using that submit_existing [of db e r l c req sc] getProgressColumn_own [of l c]
    by simp
  have les: "\<exists>r'. snd (complete_lesson en db lreq) e = Some r' \<and>
            xp r' = Some (js_add (num_or0 (xp r))
                      (case gainedXP lreq of None \<Rightarrow> Finite 20 | Some g \<Rightarrow> g)) \<and>
            level r' = lesson_level (js_add (num_or0 (xp r))
                      (case gainedXP lreq of None \<Rightarrow> Finite 20 | Some g \<Rightarrow> g))"
    if "db e = Some r" "e \<noteq> []" "email lreq = Some e"
    using that complete_lesson_main_fields [of db e r lreq en]
    by (auto simp add: gained_def)
  from bands same bounds sub les show ?thesis by blast
qed

theorem level_thresholds_witness:
  "one_user ''asha@example.com'' = Some fresh_user \<and>
   map_of LANG_COLUMN_MAP ''Spanish'' = Some ''progress_spanish'' \<and>
   submit_level (Finite 300) = ''Advanced'' \<and> lesson_level (Finite 300) = ''Advanced'' \<and>
   (\<exists>r'. snd (submit one_user (quiz ''asha@example.com'' 10 ''Spanish'')) ''asha@example.com''
            = Some r' \<and> xp r' = Some (Finite 100) \<and> level r' = ''Intermediate'') \<and>
   (\<exists>r'. snd (complete_lesson (clock 20) one_user (lesson ''asha@example.com'' ''Spanish''))
            ''asha@example.com'' = Some r' \<and> xp r' = Some (Finite 20) \<and>
            level r' = ''Beginner'')"
  using level_thresholds [where q = 300 and y = "Finite 300" and db = one_user
      and e = "''asha@example.com''"
      and r = fresh_user and req = "quiz ''asha@example.com'' 10 ''Spanish''"
      and sc = "Finite 10"
      and l = "''Spanish''" and c = "''progress_spanish''"
      and lreq = "lesson ''asha@example.com'' ''Spanish''" and en = "clock 20"]
  by (simp add: one_user_def fresh_user_def quiz_def lesson_def LANG_COLUMN_MAP_def num_or0_def
      round_double_numeral submit_level_def lesson_level_def js_ge_def)

section \<open>Level and experience stay in step\<close>

text \<open>
  Claim C2. When a quiz submission or a lesson completion succeeds (answers 200), the row
  of the user it names holds an experience value and the level that the route's level
  function gives for that value, whatever the table and the request were; for every
  experience that is a finite number this is the level of the four bands.
\<close>

theorem level_in_sync:
  "(submit db req = ((200, b), db') \<and> email req = Some e \<longrightarrow>
      (\<exists>r' x. db' e = Some r' \<and> xp r' = Some x \<and> level r' = submit_level x \<and>
         (\<forall>q. x = Finite q \<longrightarrow> level r' = level_of q))) \<and>
   (complete_lesson en db lreq = ((200, lb), ldb') \<and> email lreq = Some le \<longrightarrow>
      (\<exists>r' x. ldb' le = Some r' \<and> xp r' = Some x \<and> level r' = lesson_level x \<and>
         (\<forall>q. x = Finite q \<longrightarrow> level r' = level_of q)))"
proof -
  have sub: "\<exists>r' x. db' e = Some r' \<and> xp r' = Some x \<and> level r' = submit_level x \<and>
         (\<forall>q. x = Finite q \<longrightarrow> level r' = level_of q)"
    if ok: "submit db req = ((200, b), db')" and em: "email req = Some e"
  proof -
    from ok obtain e' sc l c r where *: "email req = Some e'" "score req = Some sc"
      "lang req = Some l" "e' \<noteq> []" "getProgressColumn l = Some (Column c)" "db e' = Some r"
      by (rule submit_ok_cases)
    then show ?thesis
      using submit_existing [of db e' r l c req sc] ok em by (auto simp add: level_calc_eq)
  qed
  have les: "\<exists>r' x. ldb' le = Some r' \<and> xp r' = Some x \<and> level r' = lesson_level x \<and>
         (\<forall>q. x = Finite q \<longrightarrow> level r' = level_of q)"
    if ok: "complete_lesson en db lreq = ((200, lb), ldb')" and em: "email lreq = Some le"
  proof -
    from ok obtain e' r where *: "email lreq = Some e'" "e' \<noteq> []" "db e' = Some r"
      by (rule complete_lesson_ok_cases)
    then show ?thesis
      using complete_lesson_main_fields [of db e' r lreq en] ok em
      by (auto simp add: level_calc_eq)
  qed
  from sub les show ?thesis by blast
qed

theorem level_in_sync_witness:
  "(\<exists>b db'. submit one_user (quiz ''asha@example.com'' 10 ''Spanish'') = ((200, b), db') \<and>
      (\<exists>r' x. db' ''asha@example.com'' = Some r' \<and> xp r' = Some x \<and>
         level r' = submit_level x \<and> (\<forall>q. x = Finite q \<longrightarrow> level r' = level_of q))) \<and>
   (\<exists>b db'. complete_lesson (clock 20) one_user (lesson ''asha@example.com'' ''Spanish'')
        = ((200, b), db') \<and>
      (\<exists>r' x. db' ''asha@example.com'' = Some r' \<and> xp r' = Some x \<and>
         level r' = lesson_level x \<and> (\<forall>q. x = Finite q \<longrightarrow> level r' = level_of q)))"
proof -
  have s: "submit one_user (quiz ''asha@example.com'' 10 ''Spanish'') =
    ((200, SubmitBody (Finite 100) ''Intermediate'' 1),
     snd (submit one_user (quiz ''asha@example.com'' 10 ''Spanish'')))"
    by (simp add: submit_def one_user_def fresh_user_def quiz_def falsy_def getProgressColumn_def
        LANG_COLUMN_MAP_def select_user_def or0_def num_or0_def round_double_numeral
        submit_level_def js_ge_def Let_def)
  have c: "complete_lesson (clock 20) one_user (lesson ''asha@example.com'' ''Spanish'') =
    ((200, LessonBody (Finite 20) ''Beginner'' 1),
     snd (complete_lesson (clock 20) one_user (lesson ''asha@example.com'' ''Spanish'')))"
    by (simp add: complete_lesson_def one_user_def fresh_user_def lesson_def falsy_def
        getProgressColumn_def LANG_COLUMN_MAP_def select_user_def or0_def num_or0_def
        round_double_numeral lesson_level_def js_ge_def Let_def)
  have e1: "email (quiz ''asha@example.com'' 10 ''Spanish'') = Some ''asha@example.com''"
    by (simp add: quiz_def)
  have e2: "email (lesson ''asha@example.com'' ''Spanish'') = Some ''asha@example.com''"
    by (simp add: lesson_def)
  note sync = level_in_sync [where db = one_user
        and req = "quiz ''asha@example.com'' 10 ''Spanish''"
        and b = "SubmitBody (Finite 100) ''Intermediate'' 1"
        and db' = "snd (submit one_user (quiz ''asha@example.com'' 10 ''Spanish''))"
        and e = "''asha@example.com''" and en = "clock 20"
        and lreq = "lesson ''asha@example.com'' ''Spanish''"
        and lb = "LessonBody (Finite 20) ''Beginner'' 1"
        and ldb' = "snd (complete_lesson (clock 20) one_user
                      (lesson ''asha@example.com'' ''Spanish''))"
        and le = "''asha@example.com''"]
  have p1: "\<exists>r' x. snd (submit one_user (quiz ''asha@example.com'' 10 ''Spanish''))
        ''asha@example.com'' = Some r' \<and> xp r' = Some x \<and>
         level r' = submit_level x \<and> (\<forall>q. x = Finite q \<longrightarrow> level r' = level_of q)"
    using sync [THEN conjunct1] s e1 by (rule mp [OF _ conjI])
  have p2: "\<exists>r' x. snd (complete_lesson (clock 20) one_user
        (lesson ''asha@example.com'' ''Spanish'')) ''asha@example.com'' = Some r' \<and>
         xp r' = Some x \<and>
         level r' = lesson_level x \<and> (\<forall>q. x = Finite q \<longrightarrow> level r' = level_of q)"
    using sync [THEN conjunct2] c e2 by (rule mp [OF _ conjI])
  show ?thesis
  proof (intro conjI)
    show "\<exists>b db'. submit one_user (quiz ''asha@example.com'' 10 ''Spanish'') = ((200, b), db') \<and>
      (\<exists>r' x. db' ''asha@example.com'' = Some r' \<and> xp r' = Some x \<and>
         level r' = submit_level x \<and> (\<forall>q. x = Finite q \<longrightarrow> level r' = level_of q))"
      by (rule exI [of _ "SubmitBody (Finite 100) ''Intermediate'' 1"],
          rule exI [of _ "snd (submit one_user (quiz ''asha@example.com'' 10 ''Spanish''))"],
          rule conjI [OF s p1])
    show "\<exists>b db'. complete_lesson (clock 20) one_user (lesson ''asha@example.com'' ''Spanish'')
        = ((200, b), db') \<and>
      (\<exists>r' x. db' ''asha@example.com'' = Some r' \<and> xp r' = Some x \<and>
         level r' = lesson_level x \<and> (\<forall>q. x = Finite q \<longrightarrow> level r' = level_of q))"
      by (rule exI [of _ "LessonBody (Finite 20) ''Beginner'' 1"],
          rule exI [of _ "snd (complete_lesson (clock 20) one_user
                      (lesson ''asha@example.com'' ''Spanish''))"],
          rule conjI [OF c p2])
  qed
qed

section \<open>Quiz submission\<close>

text \<open>
  Claim C3, as stated, fails: experience is a JavaScript number, and a sum above \<open>2 ^ 53\<close>
  is rounded. With a stored experience of 3 and a score of 900719925474099, ten times the
  score is 9007199254740990 and the new experience is 9007199254740992, not
  9007199254740993.
\<close>

theorem submit_rounds_large_experience:
  "fst (submit (Map.empty(''asha@example.com'' \<mapsto> fresh_user\<lparr>xp := Some (Finite 3)\<rparr>))
         (quiz ''asha@example.com'' 900719925474099 ''Spanish'')) =
     (200, SubmitBody (Finite 9007199254740992) ''Expert'' 1) \<and>
   (3 + 900719925474099 * 10 :: int) = 9007199254740993"
  by (simp add: submit_def fresh_user_def quiz_def falsy_def getProgressColumn_def
      LANG_COLUMN_MAP_def select_user_def or0_def num_or0_def round_double_numeral
      round_double_above submit_level_def js_ge_def Let_def)

text \<open>
  Claim C3 (amended). For every existing user record (its email is not empty, as
  registration requires), every supported language and every integer score, as long as
  the stored experience is an integer and ten times the score, the new experience and the
  lesson counter stay within the range in which a JavaScript number holds every integer
  (a magnitude of at most \<open>2 ^ 53\<close>): a quiz submission adds exactly ten times the score
  to the experience, adds exactly one to the progress counter of that language (an empty
  experience or counter counts as 0), stores the level of the new experience, changes
  nothing else, and answers with the new experience, the new level and the new counter.
\<close>

theorem submit_quiz_result_effect:
  assumes "db e = Some r" and "e \<noteq> []" and "map_of LANG_COLUMN_MAP l = Some c"
    and "email req = Some e" and "lang req = Some l"
    and "score req = Some (Finite (of_int sc))"
    and "num_or0 (xp r) = Finite (of_int x)"
    and "\<bar>sc * 10\<bar> \<le> 2 ^ 53" and "\<bar>x + sc * 10\<bar> \<le> 2 ^ 53"
    and "\<bar>or0 (progress r c)\<bar> < 2 ^ 53"
  shows "submit db req =
    ((200, SubmitBody (Finite (of_int (x + sc * 10))) (level_of (of_int (x + sc * 10)))
            (or0 (progress r c) + 1)),
     db(e \<mapsto> r\<lparr>xp := Some (Finite (of_int (x + sc * 10))),
                 level := level_of (of_int (x + sc * 10)),
                 progress := (progress r)(c := Some (or0 (progress r c) + 1))\<rparr>))"
proof -
  have gain: "js_mul (Finite (of_int sc)) (Finite 10) = Finite (of_int (sc * 10))"
    using js_mul_int [of sc 10] assms(8) by simp
  have total: "js_add (num_or0 (xp r)) (js_mul (Finite (of_int sc)) (Finite 10)) =
      Finite (of_int (x + sc * 10))"
    using js_add_int [of x "sc * 10"] assms(7,9) by (simp only: gain)
  have col: "getProgressColumn l = Some (Column c)"
    using assms(3) by (rule getProgressColumn_own)
  have "submit db req =
    ((200, SubmitBody (js_add (num_or0 (xp r)) (js_mul (Finite (of_int sc)) (Finite 10)))
            (submit_level (js_add (num_or0 (xp r)) (js_mul (Finite (of_int sc)) (Finite 10))))
            (or0 (progress r c) + 1)),
     db(e \<mapsto> r\<lparr>xp := Some (js_add (num_or0 (xp r)) (js_mul (Finite (of_int sc)) (Finite 10))),
                 level := submit_level
                   (js_add (num_or0 (xp r)) (js_mul (Finite (of_int sc)) (Finite 10))),
                 progress := (progress r)(c := Some (or0 (progress r c) + 1))\<rparr>))"
    by (rule submit_existing [of db e r l c req "Finite (of_int sc)",
          OF assms(1) assms(2) col assms(4) assms(6) assms(5)])
  then show ?thesis
    by (simp only: total level_calc_eq)
qed

theorem submit_quiz_result_effect_witness:
  "one_user ''asha@example.com'' = Some fresh_user \<and>
   map_of LANG_COLUMN_MAP ''Spanish'' = Some ''progress_spanish'' \<and>
   submit one_user (quiz ''asha@example.com'' 10 ''Spanish'') =
     ((200, SubmitBody (Finite 100) ''Intermediate'' 1),
      one_user(''asha@example.com'' \<mapsto>
        fresh_user\<lparr>xp := Some (Finite 100), level := ''Intermediate'',
          progress := (progress fresh_user)(''progress_spanish'' := Some 1)\<rparr>)) \<and>
   fst (submit
      (one_user(''asha@example.com'' \<mapsto>
        fresh_user\<lparr>xp := Some (Finite 100), level := ''Intermediate'',
          progress := (progress fresh_user)(''progress_spanish'' := Some 1)\<rparr>))
      (quiz ''asha@example.com'' 25 ''Spanish'')) =
     (200, SubmitBody (Finite 350) ''Advanced'' 2)"
  using
    submit_quiz_result_effect [where db = one_user and e = "''asha@example.com''"
      and r = fresh_user and l = "''Spanish''" and c = "''progress_spanish''"
      and req = "quiz ''asha@example.com'' 10 ''Spanish''" and sc = 10 and x = 0]
    submit_quiz_result_effect [where
      db = "one_user(''asha@example.com'' \<mapsto>
        fresh_user\<lparr>xp := Some (Finite 100), level := ''Intermediate'',
          progress := (progress fresh_user)(''progress_spanish'' := Some 1)\<rparr>)"
      and e = "''asha@example.com''"
      and r = "fresh_user\<lparr>xp := Some (Finite 100), level := ''Intermediate'',
          progress := (progress fresh_user)(''progress_spanish'' := Some 1)\<rparr>"
      and l = "''Spanish''" and c = "''progress_spanish''"
      and req = "quiz ''asha@example.com'' 25 ''Spanish''" and sc = 25 and x = 100]
  by (simp add: one_user_def fresh_user_def quiz_def LANG_COLUMN_MAP_def or0_def num_or0_def
      level_of_def)

section \<open>Streak policies\<close>

text \<open>
  Claim C4 (policy A, the streak route). For every existing user record and every clock,
  with the reference date the current date \<^verbatim>\<open>CURDATE()\<close>: the route answers the new
  streak \<open>n\<close> and stores it together with the reference date as \<^verbatim>\<open>last_active\<close>, in every
  case; \<open>n\<close> is 1 if \<^verbatim>\<open>last_active\<close> was absent; else the old streak plus 1 if it was the
  day before the reference date; else 1 if it was not the reference date; else the old
  streak (an empty streak column reads as 0).
\<close>

theorem streak_policy_A:
  assumes "db e = Some r" and "e \<noteq> []" and "email req = Some e"
  shows "\<exists>n. update_streak en db req =
           ((200, StreakBody n),
            db(e \<mapsto> r\<lparr>streak := Some n, last_active := Some (CURDATE en)\<rparr>)) \<and>
         (case last_active r of
            None \<Rightarrow> n = 1
          | Some d \<Rightarrow>
             if d = CURDATE en - 1 then n = or0 (streak r) + 1
             else if d \<noteq> CURDATE en then n = 1
             else n = or0 (streak r))"
  using update_streak_existing [of db e r req en] assms
  by (auto split: option.splits)

theorem streak_policy_A_witness:
  "two_users ''ravi@example.com'' = Some active_user \<and>
   CURDATE (clock 20) = 20 \<and> last_active active_user = Some 19 \<and>
   (\<exists>n. update_streak (clock 20) two_users (ping ''ravi@example.com'') =
           ((200, StreakBody n),
            two_users(''ravi@example.com'' \<mapsto>
              active_user\<lparr>streak := Some n, last_active := Some 20\<rparr>)) \<and>
         n = 4)"
  using streak_policy_A [where db = two_users and e = "''ravi@example.com''"
      and r = active_user and req = "ping ''ravi@example.com''" and en = "clock 20"]
  by (simp add: two_users_def active_user_def ping_def clock_def CURDATE_def toDateString_def
      msPerDay_def or0_def)

text \<open>
  Policy B, the lesson route. The route subtracts the instant of \<^verbatim>\<open>last_active\<close> (local
  midnight of the stored date) from the instant of \<^verbatim>\<open>today\<close> (midnight UTC of the UTC
  date), so its day count is the difference of the two dates plus the whole days in the
  offset of the server's time zone: nothing on a server at or east of UTC, minus one on a
  server west of UTC.
\<close>

lemma lesson_diff_days:
  "(parseISODate t - fromSqlDate off d) div msPerDay = (t - d) + off div msPerDay"
proof -
  have "parseISODate t - fromSqlDate off d = off + (t - d) * msPerDay"
    by (simp add: parseISODate_def fromSqlDate_def algebra_simps)
  then show ?thesis
    using msPerDay_pos by simp
qed

text \<open>
  On a server at or east of UTC (an offset of less than a day) the lesson route follows
  policy B on the two dates: with \<open>diff\<close> the UTC date of the clock minus the stored date,
  the new streak is 1 if \<^verbatim>\<open>last_active\<close> was absent, the old streak plus 1 if \<open>diff = 1\<close>,
  1 if \<open>diff > 1\<close>, and the old streak otherwise; the UTC date is stored in every case.
\<close>

lemma streak_policy_B_east_of_utc:
  assumes "db e = Some r" and "e \<noteq> []" and "email req = Some e"
    and "0 \<le> tz en" and "tz en < msPerDay"
  shows "\<exists>n r'. snd (complete_lesson en db req) e = Some r' \<and>
           streak r' = Some n \<and> last_active r' = Some (toISODate (now en)) \<and>
           (case last_active r of
              None \<Rightarrow> n = 1
            | Some d \<Rightarrow>
               if toISODate (now en) - d = 1 then n = or0 (streak r) + 1
               else if toISODate (now en) - d > 1 then n = 1
               else n = or0 (streak r))"
proof -
  have "tz en div msPerDay = 0"
    using assms(4,5) by simp
  then show ?thesis
    using complete_lesson_main_fields [of db e r req en] assms(1,2,3)
    by (auto simp add: lesson_streak_def lesson_diff_days split: option.splits)
qed

text \<open>
  Claim C5 says that the lesson route adds one to the streak when the reference date is
  one day after \<^verbatim>\<open>last_active\<close>, and resets it when it is more than one day after. On a
  server five hours west of UTC, at 15:00 UTC of day 20 (10:00 local time of day 20), a
  user with a streak of 3 who was last active on day 19 keeps the streak of 3, and one
  who was last active on day 18 gets a streak of 4.
\<close>

theorem lesson_streak_west_of_utc:
  "toISODate (now (clock_west 20)) = 20 \<and> CURDATE (clock_west 20) = 20 \<and>
   streak active_user = Some 3 \<and> last_active active_user = Some 19 \<and>
   fst (complete_lesson (clock_west 20) two_users (lesson ''ravi@example.com'' ''Hindi'')) =
     (200, LessonBody (Finite 110) ''Intermediate'' 3) \<and>
   fst (complete_lesson (clock_west 20)
          (two_users(''ravi@example.com'' \<mapsto> active_user\<lparr>last_active := Some 18\<rparr>))
          (lesson ''ravi@example.com'' ''Hindi'')) =
     (200, LessonBody (Finite 110) ''Intermediate'' 4)"
  by (simp add: complete_lesson_def two_users_def active_user_def lesson_def clock_west_def
      falsy_def getProgressColumn_def LANG_COLUMN_MAP_def select_user_def or0_def num_or0_def
      round_double_numeral lesson_level_def js_ge_def toISODate_def CURDATE_def
      toDateString_def parseISODate_def fromSqlDate_def msPerDay_def Let_def)

section \<open>Progress query\<close>

text \<open>
  Claim C9. For every existing user record and every supported language, the progress
  query answers the stored experience and level, the stored counter of that language
  (0 when the counter is empty or zero) and the constant 10 for the total number of
  lessons, and leaves the table as it was.
\<close>

theorem get_progress_result:
  assumes "db e = Some r" and "map_of LANG_COLUMN_MAP l = Some c"
  shows "get_progress db e l =
    ((200, ProgressBody (xp r) (level r) (case progress r c of None \<Rightarrow> 0 | Some n \<Rightarrow> n) 10),
     db)"
  using assms get_progress_existing [of db e r l c] getProgressColumn_own [of l c]
  by (simp add: or0_def)

theorem get_progress_result_witness:
  "one_user ''asha@example.com'' = Some fresh_user \<and>
   map_of LANG_COLUMN_MAP ''Tamil'' = Some ''progress_tamil'' \<and>
   get_progress one_user ''asha@example.com'' ''Tamil'' =
     ((200, ProgressBody (Some (Finite 0)) ''Beginner'' 0 10), one_user) \<and>
   get_progress (Map.empty(''new@example.com'' \<mapsto> fresh_user\<lparr>progress := (\<lambda>c. None)\<rparr>))
       ''new@example.com'' ''Tamil'' =
     ((200, ProgressBody (Some (Finite 0)) ''Beginner'' 0 10),
      Map.empty(''new@example.com'' \<mapsto> fresh_user\<lparr>progress := (\<lambda>c. None)\<rparr>))"
  using
    get_progress_result [where db = one_user and e = "''asha@example.com''"
      and r = fresh_user and l = "''Tamil''" and c = "''progress_tamil''"]
    get_progress_result [where
      db = "Map.empty(''new@example.com'' \<mapsto> fresh_user\<lparr>progress := (\<lambda>c. None)\<rparr>)"
      and e = "''new@example.com''"
      and r = "fresh_user\<lparr>progress := (\<lambda>c. None)\<rparr>" and l = "''Tamil''"
      and c = "''progress_tamil''"]
  by (simp add: one_user_def fresh_user_def LANG_COLUMN_MAP_def)

section \<open>Lesson completion and the language argument\<close>

text \<open>
  For an existing user, a lesson completion with no language, an empty one, or one that
  the table lookup maps to \<^verbatim>\<open>null\<close> succeeds and leaves every progress counter as it
  was; with a supported language it succeeds and adds one to that counter alone (an
  empty counter stays empty, as \<^verbatim>\<open>NULL + 1\<close> is \<^verbatim>\<open>NULL\<close>).
\<close>

lemma complete_lesson_language:
  assumes "db e = Some r" and "e \<noteq> []" and "email req = Some e"
  shows "lesson_column req = None \<Longrightarrow>
           complete_lesson en db req = (lesson_done en req r, db(e \<mapsto> lesson_row en req r)) \<and>
           progress (lesson_row en req r) = progress r"
    and "lang req = Some l \<Longrightarrow> map_of LANG_COLUMN_MAP l = Some c \<Longrightarrow>
           complete_lesson en db req =
             (lesson_done en req r, db(e \<mapsto> bump c (lesson_row en req r))) \<and>
           progress (bump c (lesson_row en req r)) =
             (progress r)(c := map_option (\<lambda>v. v + 1) (progress r c))"
  using complete_lesson_existing [of db e r req en] assms getProgressColumn_own [of l c]
  by (simp_all add: lesson_row_fields bump_fields lesson_column_def)

text \<open>
  Claim C6 says that a lesson completion for an existing user does not fail when the
  language is not in the supported set. At the language \<^verbatim>\<open>constructor\<close>, which is not in
  the table but is found by the lookup as an inherited property, the route writes the
  main fields, then fails on the second statement and answers 500.
\<close>

theorem complete_lesson_inherited_language:
  "map_of LANG_COLUMN_MAP ''constructor'' = None \<and>
   complete_lesson (clock 20) one_user (lesson ''asha@example.com'' ''constructor'') =
     ((500, Message ''Error completing lesson''),
      one_user(''asha@example.com'' \<mapsto>
        fresh_user\<lparr>xp := Some (Finite 20), level := ''Beginner'', last_active := Some 20,
          streak := Some 1\<rparr>))"
  by (simp add: complete_lesson_def one_user_def fresh_user_def lesson_def clock_def falsy_def
      getProgressColumn_def LANG_COLUMN_MAP_def Object_prototype_keys_def select_user_def
      update_user_def or0_def num_or0_def round_double_numeral lesson_level_def js_ge_def
      toISODate_def msPerDay_def Let_def)

section \<open>The stored date of last activity\<close>

text \<open>
  Claim C7, as stated, fails: a streak update on day 20 followed by a lesson completion
  whose clock reads day 10 leaves \<^verbatim>\<open>last_active\<close> at day 20 and then at day 10.
\<close>

theorem last_active_regresses:
  "last_active_of one_user ''asha@example.com'' = None \<and>
   map (\<lambda>db'. last_active_of db' ''asha@example.com'')
     (run one_user
        [(clock 20, UpdateStreak (ping ''asha@example.com'')),
         (clock 10, CompleteLesson (lesson ''asha@example.com'' ''Spanish''))])
     = [Some 20, Some 10] \<and>
   \<not> never_regresses (last_active_of one_user ''asha@example.com'')
       (map (\<lambda>db'. last_active_of db' ''asha@example.com'')
         (run one_user
            [(clock 20, UpdateStreak (ping ''asha@example.com'')),
             (clock 10, CompleteLesson (lesson ''asha@example.com'' ''Spanish''))]))"
proof -
  have first: "snd (update_streak (clock 20) one_user (ping ''asha@example.com'')) =
      one_user(''asha@example.com'' \<mapsto> fresh_user\<lparr>streak := Some 1, last_active := Some 20\<rparr>)"
    using update_streak_existing [of one_user "''asha@example.com''" fresh_user
        "ping ''asha@example.com''" "clock 20"]
    by (simp add: one_user_def fresh_user_def ping_def clock_def CURDATE_def toDateString_def
        msPerDay_def)
  have second: "last_active_of
      (snd (complete_lesson (clock 10)
         (one_user(''asha@example.com'' \<mapsto> fresh_user\<lparr>streak := Some 1, last_active := Some 20\<rparr>))
         (lesson ''asha@example.com'' ''Spanish''))) ''asha@example.com'' = Some 10"
    using complete_lesson_main_fields [of
        "one_user(''asha@example.com'' \<mapsto> fresh_user\<lparr>streak := Some 1, last_active := Some 20\<rparr>)"
        "''asha@example.com''" "fresh_user\<lparr>streak := Some 1, last_active := Some 20\<rparr>"
        "lesson ''asha@example.com'' ''Spanish''" "clock 10"]
    by (auto simp add: last_active_of_def lesson_def clock_def toISODate_def msPerDay_def)
  show ?thesis
    using second
    by (simp add: serve_def first) (simp add: last_active_of_def one_user_def fresh_user_def)
qed

text \<open>
  If the dates the requests write are in order, and none is earlier than the date stored
  at the start, the stored date never goes back.
\<close>

lemma run_never_regresses:
  assumes "sorted (reference_dates evs)"
    and "\<forall>d. last_active_of db e = Some d \<longrightarrow> (\<forall>w \<in> set (reference_dates evs). d \<le> w)"
  shows "never_regresses (last_active_of db e) (map (\<lambda>db'. last_active_of db' e) (run db evs))"
  using assms
proof (induction evs arbitrary: db)
  case Nil
  then show ?case by simp
next
  case (Cons ev evs)
  obtain en c where ev: "ev = (en, c)"
    by (cases ev)
  let ?db' = "snd (serve en db c)"
  have sorted_rest: "sorted (reference_dates evs)"
    using Cons.prems(1) ev by (simp split: option.splits)
  consider (same) "last_active_of ?db' e = last_active_of db e"
    | (written) w where "written_date en c = Some w" "last_active_of ?db' e = Some w"
    using serve_last_active [of en db c e] by blast
  then show ?case
  proof cases
    case same
    have "\<forall>d. last_active_of ?db' e = Some d \<longrightarrow> (\<forall>w \<in> set (reference_dates evs). d \<le> w)"
      using Cons.prems(2) same ev by (auto split: option.splits)
    with Cons.IH [OF sorted_rest]
    have "never_regresses (last_active_of ?db' e)
        (map (\<lambda>db'. last_active_of db' e) (run ?db' evs))"
      by blast
    with same show ?thesis
      by (simp add: ev moves_forward_refl)
  next
    case written
    have "\<forall>d. last_active_of ?db' e = Some d \<longrightarrow> (\<forall>w \<in> set (reference_dates evs). d \<le> w)"
      using Cons.prems(1) written ev by auto
    with Cons.IH [OF sorted_rest]
    have rest: "never_regresses (last_active_of ?db' e)
        (map (\<lambda>db'. last_active_of db' e) (run ?db' evs))"
      by blast
    have "moves_forward (last_active_of db e) (last_active_of ?db' e)"
    proof (cases "last_active_of db e")
      case None
      then show ?thesis by simp
    next
      case (Some d)
      then have "d \<le> w"
        using Cons.prems(2) written(1) ev by simp
      then show ?thesis
        using Some written(2) by simp
    qed
    with rest show ?thesis
      by (simp add: ev)
  qed
qed

lemma toISODate_mono: "a \<le> b \<Longrightarrow> toISODate a \<le> toISODate b"
  using msPerDay_pos by (simp add: toISODate_def zdiv_mono1)

lemma reference_dates_clock:
  assumes "\<forall>ev \<in> set evs. CURDATE (fst ev) = toISODate (now (fst ev))"
    and "w \<in> set (reference_dates evs)"
  shows "\<exists>ev \<in> set evs. w = toISODate (now (fst ev))"
  using assms
proof (induction evs)
  case Nil
  then show ?case by simp
next
  case (Cons ev evs)
  obtain en c where ev: "ev = (en, c)"
    by (cases ev)
  show ?case
  proof (cases "w \<in> set (reference_dates evs)")
    case True
    then show ?thesis
      using Cons.IH Cons.prems(1) by auto
  next
    case False
    then have "written_date en c = Some w"
      using Cons.prems(2) ev by (auto split: option.splits)
    then have "w = toISODate (now en)"
      using Cons.prems(1) ev by (cases c) (auto simp add: written_date_def)
    then show ?thesis
      using ev by simp
  qed
qed

lemma reference_dates_sorted:
  assumes "sorted (map (\<lambda>ev. now (fst ev)) evs)"
    and "\<forall>ev \<in> set evs. CURDATE (fst ev) = toISODate (now (fst ev))"
  shows "sorted (reference_dates evs)"
  using assms
proof (induction evs)
  case Nil
  then show ?case by simp
next
  case (Cons ev evs)
  obtain en c where ev: "ev = (en, c)"
    by (cases ev)
  have rest: "sorted (reference_dates evs)"
    using Cons by simp
  show ?case
  proof (cases "written_date en c")
    case None
    then show ?thesis
      using rest ev by simp
  next
    case (Some w)
    then have w: "w = toISODate (now en)"
      using Cons.prems(2) ev by (cases c) (auto simp add: written_date_def)
    have "w \<le> w'" if "w' \<in> set (reference_dates evs)" for w'
    proof -
      from that obtain ev' where ev': "ev' \<in> set evs" "w' = toISODate (now (fst ev'))"
        using reference_dates_clock [of evs w'] Cons.prems(2) by auto
      then have "now en \<le> now (fst ev')"
        using Cons.prems(1) ev by auto
      then show ?thesis
        using w ev'(2) toISODate_mono by simp
    qed
    then show ?thesis
      using rest Some ev by simp
  qed
qed

text \<open>
  The two routes do not write the same date: the streak route writes the local date of
  the server, the lesson route the UTC date. At 19:00 UTC of day 20 on a server five and
  a half hours east of UTC (00:30 local time of day 21) a streak update stores day 21 and
  a lesson completion at the same instant stores day 20.
\<close>

lemma last_active_local_then_utc:
  "map (\<lambda>db'. last_active_of db' ''asha@example.com'')
     (run one_user
        [(\<lparr>now = 1796400000, tz = 19800000\<rparr>, UpdateStreak (ping ''asha@example.com'')),
         (\<lparr>now = 1796400000, tz = 19800000\<rparr>,
          CompleteLesson (lesson ''asha@example.com'' ''Spanish''))])
     = [Some 21, Some 20]"
proof -
  have first: "snd (update_streak \<lparr>now = 1796400000, tz = 19800000\<rparr> one_user
        (ping ''asha@example.com'')) =
      one_user(''asha@example.com'' \<mapsto> fresh_user\<lparr>streak := Some 1, last_active := Some 21\<rparr>)"
    using update_streak_existing [of one_user "''asha@example.com''" fresh_user
        "ping ''asha@example.com''" "\<lparr>now = 1796400000, tz = 19800000\<rparr>"]
    by (simp add: one_user_def fresh_user_def ping_def CURDATE_def toDateString_def
        msPerDay_def)
  have second: "last_active_of
      (snd (complete_lesson \<lparr>now = 1796400000, tz = 19800000\<rparr>
         (one_user(''asha@example.com'' \<mapsto> fresh_user\<lparr>streak := Some 1, last_active := Some 21\<rparr>))
         (lesson ''asha@example.com'' ''Spanish''))) ''asha@example.com'' = Some 20"
    using complete_lesson_main_fields [of
        "one_user(''asha@example.com'' \<mapsto> fresh_user\<lparr>streak := Some 1, last_active := Some 21\<rparr>)"
        "''asha@example.com''" "fresh_user\<lparr>streak := Some 1, last_active := Some 21\<rparr>"
        "lesson ''asha@example.com'' ''Spanish''" "\<lparr>now = 1796400000, tz = 19800000\<rparr>"]
    by (auto simp add: last_active_of_def lesson_def toISODate_def msPerDay_def)
  show ?thesis
    using second
    by (simp add: serve_def first) (simp add: last_active_of_def)
qed

text \<open>
  Claim C7 (amended). For every sequence of requests whose clock never runs backwards,
  each handled while the local date of the server is the UTC date, and starting from a
  stored \<^verbatim>\<open>last_active\<close> that is absent or not later than the date of any of the requests,
  the stored \<^verbatim>\<open>last_active\<close> of every user only moves forward or is set from absent,
  request after request.
\<close>

theorem last_active_forward:
  assumes "sorted (map (\<lambda>ev. now (fst ev)) evs)"
    and "\<forall>ev \<in> set evs. CURDATE (fst ev) = toISODate (now (fst ev))"
    and "\<forall>d. last_active_of db e = Some d \<longrightarrow>
           (\<forall>ev \<in> set evs. d \<le> toISODate (now (fst ev)))"
  shows "never_regresses (last_active_of db e) (map (\<lambda>db'. last_active_of db' e) (run db evs))"
proof -
  have ordered: "sorted (reference_dates evs)"
    using assms(1,2) by (rule reference_dates_sorted)
  have start: "\<forall>d. last_active_of db e = Some d \<longrightarrow>
      (\<forall>w \<in> set (reference_dates evs). d \<le> w)"
    using assms(3) reference_dates_clock [OF assms(2)] by blast
  from ordered start show ?thesis
    by (rule run_never_regresses)
qed

theorem last_active_forward_witness:
  "sorted (map (\<lambda>ev. now (fst ev))
     [(clock 20, UpdateStreak (ping ''ravi@example.com'')),
      (clock 20, Submit (quiz ''ravi@example.com'' 7 ''Hindi'')),
      (clock 21, CompleteLesson (lesson ''ravi@example.com'' ''Hindi'')),
      (clock 23, UpdateStreak (ping ''ravi@example.com''))]) \<and>
   CURDATE (clock 20) = toISODate (now (clock 20)) \<and>
   CURDATE (clock 21) = toISODate (now (clock 21)) \<and>
   CURDATE (clock 23) = toISODate (now (clock 23)) \<and>
   toISODate (now (clock 20)) = 20 \<and>
   last_active_of two_users ''ravi@example.com'' = Some 19 \<and>
   never_regresses (last_active_of two_users ''ravi@example.com'')
     (map (\<lambda>db'. last_active_of db' ''ravi@example.com'')
       (run two_users
         [(clock 20, UpdateStreak (ping ''ravi@example.com'')),
          (clock 20, Submit (quiz ''ravi@example.com'' 7 ''Hindi'')),
          (clock 21, CompleteLesson (lesson ''ravi@example.com'' ''Hindi'')),
          (clock 23, UpdateStreak (ping ''ravi@example.com''))]))"
proof -
  have dates: "CURDATE (clock 20) = 20" "toISODate (now (clock 20)) = 20"
    "CURDATE (clock 21) = 21" "toISODate (now (clock 21)) = 21"
    "CURDATE (clock 23) = 23" "toISODate (now (clock 23)) = 23"
    by (simp_all add: clock_def CURDATE_def toDateString_def toISODate_def msPerDay_def)
  have times: "now (clock 20) \<le> now (clock 21)" "now (clock 21) \<le> now (clock 23)"
    "now (clock 20) \<le> now (clock 23)"
    by (simp_all add: clock_def)
  have stored: "last_active_of two_users ''ravi@example.com'' = Some 19"
    by (simp add: last_active_of_def two_users_def active_user_def)
  show ?thesis
    using dates times stored
      last_active_forward [where db = two_users and e = "''ravi@example.com''" and evs =
        "[(clock 20, UpdateStreak (ping ''ravi@example.com'')),
          (clock 20, Submit (quiz ''ravi@example.com'' 7 ''Hindi'')),
          (clock 21, CompleteLesson (lesson ''ravi@example.com'' ''Hindi'')),
          (clock 23, UpdateStreak (ping ''ravi@example.com''))]"]
    by simp
qed

section \<open>Requests for a user that does not exist\<close>

text \<open>
  Claim C8, as stated, fails: for a user that does not exist and a language that is not
  supported, the submit route and the progress query answer "Unsupported language",
  not "User not found".
\<close>

theorem missing_user_unsupported_language:
  "one_user ''ghost@example.com'' = None \<and>
   submit one_user (quiz ''ghost@example.com'' 5 ''Klingon'') = (UnsupportedLanguage, one_user) \<and>
   get_progress one_user ''ghost@example.com'' ''Klingon'' = (UnsupportedLanguage, one_user) \<and>
   UnsupportedLanguage \<noteq> NotFound"
  by (simp add: submit_def get_progress_def one_user_def quiz_def falsy_def
      getProgressColumn_def LANG_COLUMN_MAP_def Object_prototype_keys_def
      UnsupportedLanguage_def NotFound_def)

text \<open>
  Claim C8 (amended). For every request whose email names no existing row, each of the
  four routes fails (its status is not 200) and leaves the whole table as it was. The
  lesson route and the streak route answer "Email required" for an empty email and
  "User not found" otherwise. The submit route answers "email, score and lang required"
  when the email is empty or the score or the language is missing or empty; otherwise
  "Unsupported language" when the language lookup gives \<^verbatim>\<open>null\<close>, and "User not found"
  when the language is supported. The progress query answers "Unsupported language" when
  the language lookup gives \<^verbatim>\<open>null\<close>, and "User not found" when the language is supported.
\<close>

theorem missing_user_fails_atomically:
  assumes "db e = None" and "email req = Some e"
  shows "snd (submit db req) = db \<and> fst (fst (submit db req)) \<noteq> 200 \<and>
    snd (complete_lesson en db req) = db \<and> fst (fst (complete_lesson en db req)) \<noteq> 200 \<and>
    snd (update_streak en db req) = db \<and> fst (fst (update_streak en db req)) \<noteq> 200 \<and>
    snd (get_progress db e l) = db \<and> fst (fst (get_progress db e l)) \<noteq> 200 \<and>
    (e \<noteq> [] \<longrightarrow>
       fst (complete_lesson en db req) = NotFound \<and> fst (update_streak en db req) = NotFound) \<and>
    (e = [] \<longrightarrow>
       fst (complete_lesson en db req) = (400, Message ''Email required'') \<and>
       fst (update_streak en db req) = (400, Message ''Email required'')) \<and>
    (e \<noteq> [] \<and> score req = Some sc \<and> lang req = Some sl \<and>
     map_of LANG_COLUMN_MAP sl = Some sc' \<longrightarrow> fst (submit db req) = NotFound) \<and>
    (e \<noteq> [] \<and> score req = Some sc \<and> lang req = Some sl \<and> sl \<noteq> [] \<and>
     getProgressColumn sl = None \<longrightarrow> fst (submit db req) = UnsupportedLanguage) \<and>
    (e = [] \<or> score req = None \<or> falsy (lang req) \<longrightarrow>
       fst (submit db req) = (400, Message ''email, score and lang required'')) \<and>
    (map_of LANG_COLUMN_MAP l = Some c \<longrightarrow> fst (get_progress db e l) = NotFound) \<and>
    (getProgressColumn l = None \<longrightarrow> fst (get_progress db e l) = UnsupportedLanguage)"
proof -
  have s: "snd (submit db req) = db" "fst (fst (submit db req)) \<noteq> 200"
    using assms submit_ghost(1,2) [of db e req] by simp_all
  have s404: "fst (submit db req) = NotFound"
    if "e \<noteq> []" "score req = Some sc" "lang req = Some sl" "map_of LANG_COLUMN_MAP sl = Some sc'"
    using assms that submit_ghost(3) [of db e req sc sl sc'] getProgressColumn_own [of sl sc']
    by simp
  have s400: "fst (submit db req) = UnsupportedLanguage"
    if "e \<noteq> []" "score req = Some sc" "lang req = Some sl" "sl \<noteq> []"
      "getProgressColumn sl = None"
    using assms(2) that submit_unsupported [of req e sc sl db] by simp
  have sreq: "fst (submit db req) = (400, Message ''email, score and lang required'')"
    if "e = [] \<or> score req = None \<or> falsy (lang req)"
    using assms(2) that by (auto simp add: submit_def falsy_def)
  have c: "complete_lesson en db req =
      ((if e = [] then (400, Message ''Email required'') else NotFound), db)"
    using assms complete_lesson_ghost [of db e req en] by simp
  have u: "update_streak en db req =
      ((if e = [] then (400, Message ''Email required'') else NotFound), db)"
    using assms update_streak_ghost [of db e req en] by simp
  have g: "snd (get_progress db e l) = db" "fst (fst (get_progress db e l)) \<noteq> 200"
    using assms get_progress_unchanged [of db e l] get_progress_ghost(1) [of db e l]
    by simp_all
  have g404: "fst (get_progress db e l) = NotFound" if "map_of LANG_COLUMN_MAP l = Some c"
    using assms that get_progress_ghost(2) [of db e l c] getProgressColumn_own [of l c]
    by simp
  have g400: "fst (get_progress db e l) = UnsupportedLanguage" if "getProgressColumn l = None"
    using that get_progress_unsupported [of l db e] by simp
  show ?thesis
    using s s404 s400 sreq g g404 g400 by (simp add: c u NotFound_def)
qed

theorem missing_user_fails_atomically_witness:
  "one_user ''ghost@example.com'' = None \<and>
   map_of LANG_COLUMN_MAP ''Spanish'' = Some ''progress_spanish'' \<and>
   getProgressColumn ''Klingon'' = None \<and>
   submit one_user (quiz ''ghost@example.com'' 5 ''Spanish'') = (NotFound, one_user) \<and>
   submit one_user (quiz ''ghost@example.com'' 5 ''Klingon'') = (UnsupportedLanguage, one_user) \<and>
   submit one_user (ping ''ghost@example.com'') =
     ((400, Message ''email, score and lang required''), one_user) \<and>
   complete_lesson (clock 20) one_user (quiz ''ghost@example.com'' 5 ''Spanish'')
     = (NotFound, one_user) \<and>
   update_streak (clock 20) one_user (quiz ''ghost@example.com'' 5 ''Spanish'')
     = (NotFound, one_user) \<and>
   get_progress one_user ''ghost@example.com'' ''Spanish'' = (NotFound, one_user) \<and>
   get_progress one_user ''ghost@example.com'' ''Klingon'' = (UnsupportedLanguage, one_user)"
  using
    missing_user_fails_atomically [where db = one_user and e = "''ghost@example.com''"
      and req = "quiz ''ghost@example.com'' 5 ''Spanish''" and en = "clock 20"
      and l = "''Spanish''" and c = "''progress_spanish''" and sc = "Finite 5"
      and sl = "''Spanish''" and sc' = "''progress_spanish''"]
    missing_user_fails_atomically [where db = one_user and e = "''ghost@example.com''"
      and req = "quiz ''ghost@example.com'' 5 ''Klingon''" and en = "clock 20"
      and l = "''Klingon''" and sc = "Finite 5" and sl = "''Klingon''"]
    missing_user_fails_atomically [where db = one_user and e = "''ghost@example.com''"
      and req = "ping ''ghost@example.com''" and en = "clock 20"]
  by (auto simp add: one_user_def quiz_def ping_def falsy_def LANG_COLUMN_MAP_def
      Object_prototype_keys_def getProgressColumn_def prod_eq_iff)

section \<open>The language check and the user lookup\<close>

text \<open>
  Claim C10 says that the submit route and the progress query answer "Unsupported
  language" for every language outside the supported set, before any lookup of the user.
  At the language \<^verbatim>\<open>constructor\<close>, which is not in the table but is found by the lookup as
  an inherited property, neither route answers "Unsupported language": each runs its
  query, which the database refuses, and answers 500.
\<close>

theorem inherited_language_not_rejected:
  "map_of LANG_COLUMN_MAP ''constructor'' = None \<and>
   submit Map.empty (quiz ''ghost@example.com'' 5 ''constructor'') =
     ((500, Message ''Error submitting quiz''), Map.empty) \<and>
   get_progress Map.empty ''ghost@example.com'' ''constructor'' =
     ((500, Message ''Progress fetch failed''), Map.empty) \<and>
   (500, Message ''Error submitting quiz'') \<noteq> UnsupportedLanguage \<and>
   (500, Message ''Progress fetch failed'') \<noteq> UnsupportedLanguage"
  by (simp add: submit_def get_progress_def quiz_def falsy_def getProgressColumn_def
      LANG_COLUMN_MAP_def Object_prototype_keys_def UnsupportedLanguage_def)

end
